theory Spec2Isabelle
  imports Main
begin

section \<open>Python values and their textual forms\<close>

text \<open>
  The message helpers of \<^verbatim>\<open>command_lib/run/messages_util.py\<close> only build strings with
  \<^verbatim>\<open>str.format\<close>, \<^verbatim>\<open>+\<close> and \<^verbatim>\<open>+=\<close>. The values that reach a replacement field are
  strings, \<^verbatim>\<open>None\<close>, integers and one list of strings; \<open>pyval\<close> covers these.
  Strings are \<open>char list\<close>, a character standing for the code point of the same number
  (0 to 255).
\<close>

datatype pyval = PNone | PInt int | PStr string | PList "pyval list"

text \<open>The exceptions the modelled operations can raise. \<open>NotModelled\<close> is not an exception
  of Python: it marks a replacement field that uses a feature of the format mini-language
  left out of \<open>py_format\<close> below (conversions, format specs, attribute and index access,
  explicit numbering, nested fields), where the model does not say what \<^verbatim>\<open>str.format\<close>
  does. No template written in the module uses one, and no builder below returns it.\<close>

datatype error = ValueError | KeyError string | IndexError nat | NotModelled

text \<open>Sequencing of computations that may raise.\<close>

definition ebind :: "error + 'a \<Rightarrow> ('a \<Rightarrow> error + 'b) \<Rightarrow> error + 'b" where
  "ebind m f = (case m of Inl e \<Rightarrow> Inl e | Inr x \<Rightarrow> f x)"

text \<open>Truth value of an object, as \<^verbatim>\<open>if x:\<close> and \<^verbatim>\<open>x and y\<close> test it.\<close>

fun py_truthy :: "pyval \<Rightarrow> bool" where
  "py_truthy PNone = False"
| "py_truthy (PInt i) = (i \<noteq> 0)"
| "py_truthy (PStr s) = (s \<noteq> [])"
| "py_truthy (PList vs) = (vs \<noteq> [])"

text \<open>An attribute that holds a string or \<^verbatim>\<open>None\<close>.\<close>

fun of_opt :: "string option \<Rightarrow> pyval" where
  "of_opt None = PNone"
| "of_opt (Some s) = PStr s"

text \<open>\<^verbatim>\<open>str(n)\<close> for an integer: decimal digits, a minus sign for negatives.\<close>

fun str_nat :: "nat \<Rightarrow> string" where
  "str_nat n = (if n < 10 then [''0123456789'' ! n]
                else str_nat (n div 10) @ [''0123456789'' ! (n mod 10)])"

declare str_nat.simps [simp del]

definition str_int :: "int \<Rightarrow> string" where
  "str_int i = (if i < 0 then CHR ''-'' # str_nat (nat (- i)) else str_nat (nat i))"

text \<open>\<^verbatim>\<open>repr(s)\<close> for a string. The quote is \<^verbatim>\<open>'\<close> unless the string holds a \<^verbatim>\<open>'\<close> and no
  \<^verbatim>\<open>"\<close>. The quote and the backslash are escaped with a backslash, tab, newline and carriage
  return by their letter, every other non-printable character by \<^verbatim>\<open>\xNN\<close>.\<close>

definition hex2 :: "nat \<Rightarrow> string" where
  "hex2 n = [''0123456789abcdef'' ! (n div 16), ''0123456789abcdef'' ! (n mod 16)]"

definition is_printable :: "char \<Rightarrow> bool" where
  "is_printable c =
     (let n = of_char c :: nat
      in (32 \<le> n \<and> n < 127) \<or> (161 \<le> n \<and> n \<noteq> 173))"

definition repr_quote :: "string \<Rightarrow> char" where
  "repr_quote s = (if CHR 0x27 \<in> set s \<and> CHR 0x22 \<notin> set s then CHR 0x22 else CHR 0x27)"

definition repr_char :: "char \<Rightarrow> char \<Rightarrow> string" where
  "repr_char q c =
     (if c = q \<or> c = CHR 0x5C then [CHR 0x5C, c]
      else if c = CHR 0x09 then [CHR 0x5C, CHR ''t'']
      else if c = CHR 0x0A then [CHR 0x5C, CHR ''n'']
      else if c = CHR 0x0D then [CHR 0x5C, CHR ''r'']
      else if is_printable c then [c]
      else [CHR 0x5C, CHR ''x''] @ hex2 (of_char c))"

definition repr_str :: "string \<Rightarrow> string" where
  "repr_str s = (let q = repr_quote s in [q] @ concat (map (repr_char q) s) @ [q])"

text \<open>\<^verbatim>\<open>', '.join(xs)\<close>.\<close>

fun join_comma :: "string list \<Rightarrow> string" where
  "join_comma [] = []"
| "join_comma [x] = x"
| "join_comma (x # y # ys) = x @ '', '' @ join_comma (y # ys)"

fun py_repr :: "pyval \<Rightarrow> string" where
  "py_repr PNone = ''None''"
| "py_repr (PInt i) = str_int i"
| "py_repr (PStr s) = repr_str s"
| "py_repr (PList vs) = ''['' @ join_comma (map py_repr vs) @ '']''"

text \<open>\<^verbatim>\<open>str(v)\<close>, which is what an empty format spec applies to these values.\<close>

fun py_str :: "pyval \<Rightarrow> string" where
  "py_str (PStr s) = s"
| "py_str v = py_repr v"

section \<open>\<^verbatim>\<open>str.format\<close>\<close>

text \<open>
  \<open>py_fmt args kw n field template\<close> walks the template from left to right.
  \<open>field = None\<close> is literal text: \<^verbatim>\<open>{{\<close> and \<^verbatim>\<open>}}\<close> give one brace, a lone \<^verbatim>\<open>}\<close> or a
  \<^verbatim>\<open>{\<close> at the end is a \<^verbatim>\<open>ValueError\<close>. \<open>field = Some f\<close> is inside a replacement
  field whose name read so far is \<open>f\<close> (reversed); the end of the template there is a
  \<^verbatim>\<open>ValueError\<close>. A field with an empty name takes the next positional argument
  (\<open>n\<close> counts them, \<^verbatim>\<open>IndexError\<close> past the end), any other name is looked up among
  the keyword arguments (\<^verbatim>\<open>KeyError\<close> when absent). The value is inserted as \<open>py_str\<close>
  gives it and is not scanned again. An exception stops the walk where it is raised.
\<close>

definition field_value :: "pyval list \<Rightarrow> (string \<times> pyval) list \<Rightarrow> nat \<Rightarrow> string \<Rightarrow> error + pyval"
  where
  "field_value args kw n f =
     (if f = [] then (if n < length args then Inr (args ! n) else Inl (IndexError n))
      else if filter (\<lambda>c. c \<notin> set ''0123456789'') f = [] then Inl NotModelled
      else case map_of kw f of None \<Rightarrow> Inl (KeyError f) | Some v \<Rightarrow> Inr v)"

fun py_fmt ::
  "pyval list \<Rightarrow> (string \<times> pyval) list \<Rightarrow> nat \<Rightarrow> string option \<Rightarrow> string \<Rightarrow> error + string"
  where
  "py_fmt args kw n None [] = Inr []"
| "py_fmt args kw n None [c] =
     (if c = CHR ''{'' \<or> c = CHR ''}'' then Inl ValueError else Inr [c])"
| "py_fmt args kw n None (c # d # cs) =
     (if c = CHR ''{'' then
        (if d = CHR ''{'' then ebind (py_fmt args kw n None cs) (\<lambda>out. Inr (c # out))
         else py_fmt args kw n (Some []) (d # cs))
      else if c = CHR ''}'' then
        (if d = CHR ''}'' then ebind (py_fmt args kw n None cs) (\<lambda>out. Inr (c # out))
         else Inl ValueError)
      else ebind (py_fmt args kw n None (d # cs)) (\<lambda>out. Inr (c # out)))"
| "py_fmt args kw n (Some f) [] = Inl ValueError"
| "py_fmt args kw n (Some f) (c # cs) =
     (if c = CHR ''}'' then
        ebind (field_value args kw n (rev f)) (\<lambda>v.
        ebind (py_fmt args kw (if f = [] then Suc n else n) None cs) (\<lambda>out.
        Inr (py_str v @ out)))
      else if c \<in> set ''{!:.['' then Inl NotModelled
      else py_fmt args kw n (Some (c # f)) cs)"

definition py_format :: "string \<Rightarrow> pyval list \<Rightarrow> (string \<times> pyval) list \<Rightarrow> error + string" where
  "py_format template args kw = py_fmt args kw 0 None template"

text \<open>
  \<^verbatim>\<open>str.format\<close> on a template that holds text of the input, which may use any feature of
  the mini-language. The result is \<open>None\<close> when the walk reaches a replacement field outside
  the modelled fragment: the model is undefined there and says nothing about the code.
  Otherwise it is \<open>Some\<close> of what \<^verbatim>\<open>str.format\<close> returns or raises.
\<close>

definition py_format_modelled ::
  "string \<Rightarrow> pyval list \<Rightarrow> (string \<times> pyval) list \<Rightarrow> (error + string) option" where
  "py_format_modelled template args kw =
     (case py_format template args kw of
        Inl e \<Rightarrow> (if e = NotModelled then None else Some (Inl e))
      | Inr out \<Rightarrow> Some (Inr out))"

section \<open>The objects the messages read\<close>

text \<open>
  The classes of these objects are defined elsewhere in the SDK; the records hold the
  attributes and accessor results that \<^verbatim>\<open>messages_util.py\<close> reads. An attribute that may be
  \<^verbatim>\<open>None\<close> is an \<open>option\<close>. \<open>conditions\<close> maps a condition type to its detail dictionary.
\<close>

record service_status =
  latestReadyRevisionName :: string
  latestCreatedRevisionName :: string

record service =
  name :: string
  status :: service_status
  latest_percent_traffic :: int
  latest_url :: "string option"
  domain :: string
  conditions :: "string \<rightharpoonup> (string \<rightharpoonup> pyval)"

record conn_context =
  location_label :: string
  operator :: string
  ns_label :: string
  region :: string

text \<open>\<open>Name r\<close> is \<^verbatim>\<open>r.Name()\<close> and \<open>Parent r\<close> is \<^verbatim>\<open>r.Parent()\<close>, itself a resource with a
  name.\<close>

record resource =
  Name :: string

record resource_ref = resource +
  Parent :: resource
  projectsId :: string

record release_track =
  prefix :: "string option"

record execution_status =
  logUri :: "string option"

record execution =
  name :: string
  region :: string
  namespace :: string
  status :: "execution_status option"

text \<open>\<^verbatim>\<open>d.get(k)\<close> and \<^verbatim>\<open>d[k]\<close> on a dictionary.\<close>

definition dict_get :: "(string \<rightharpoonup> pyval) \<Rightarrow> string \<Rightarrow> pyval" where
  "dict_get d k = (case d k of None \<Rightarrow> PNone | Some v \<Rightarrow> v)"

definition getitem :: "(string \<rightharpoonup> 'v) \<Rightarrow> string \<Rightarrow> error + 'v" where
  "getitem d k = (case d k of None \<Rightarrow> Inl (KeyError k) | Some v \<Rightarrow> Inr v)"

section \<open>The message builders\<close>

subsection \<open>\<^verbatim>\<open>GetSuccessMessageForMultiRegionSynchronousDeploy\<close>\<close>

text \<open>The loop over the regions: \<open>region_url\<close> is the conditional expression bound to
  \<^verbatim>\<open>url\<close>, \<open>multi_region_loop\<close> the loop with \<^verbatim>\<open>msg\<close> as its accumulator. (\<open>reg\<close> is the
  loop variable \<^verbatim>\<open>region\<close>; \<open>percent\<close>, \<open>url\<close> and \<open>target\<close> below stand for the locals
  \<^verbatim>\<open>latest_percent_traffic\<close>, \<^verbatim>\<open>latest_url\<close> and the parameter \<^verbatim>\<open>name\<close>, whose names are
  attribute names here.)\<close>

definition region_url :: "service \<Rightarrow> string \<Rightarrow> error + pyval" where
  "region_url service reg =
     (let condition = ''MultiRegionReady/'' @ reg
      in if conditions service condition \<noteq> None
         then ebind (getitem (conditions service) condition) (\<lambda>c. Inr (dict_get c ''message''))
         else Inr (PStr []))"

fun multi_region_loop :: "service \<Rightarrow> string list \<Rightarrow> string \<Rightarrow> error + string" where
  "multi_region_loop service [] msg = Inr msg"
| "multi_region_loop service (reg # regions) msg =
     ebind (region_url service reg) (\<lambda>url.
     ebind (py_format ''\<newline>{{bold}}{url}{{reset}} ({{bold}}{r}{{reset}})'' []
              [(''r'', PStr reg), (''url'', url)]) (\<lambda>line.
     multi_region_loop service regions (msg @ line)))"

definition GetSuccessMessageForMultiRegionSynchronousDeploy ::
  "service \<Rightarrow> string list \<Rightarrow> error + string" where
  "GetSuccessMessageForMultiRegionSynchronousDeploy service regions =
     ebind (py_format
              (''Multi-Region Service [{{bold}}{s}{{reset}}] '' @
               ''has been deployed to regions {{bold}}{r}{{reset}}.'' @
               ''\<newline>Regional URLs:'')
              [] [(''s'', PStr (service.name service)), (''r'', PList (map PStr regions))])
       (\<lambda>msg. multi_region_loop service regions msg)"

subsection \<open>\<^verbatim>\<open>GetSuccessMessageForSynchronousDeploy\<close>\<close>

definition GetSuccessMessageForSynchronousDeploy :: "service \<Rightarrow> bool \<Rightarrow> error + string" where
  "GetSuccessMessageForSynchronousDeploy service no_traffic =
     (let latest_ready = latestReadyRevisionName (service.status service);
          latest_created = latestCreatedRevisionName (service.status service);
          percent = (if no_traffic then 0 else latest_percent_traffic service);
          msg = ''Service [{{bold}}{serv}{{reset}}] '' @
                ''revision [{{bold}}{rev}{{reset}}] '' @
                ''has been deployed and is serving '' @
                ''{{bold}}{latest_percent_traffic}{{reset}} percent of traffic.'';
          msg = (if py_truthy (PInt percent)
                 then msg @ ''\<newline>Service URL: {{bold}}{url}{{reset}}'' else msg);
          url = of_opt (latest_url service)
      in ebind (if py_truthy url
                then py_format ''\<newline>The revision can be reached directly at {}'' [url] []
                else Inr []) (\<lambda>tag_url_message.
         ebind (py_format msg []
                  [(''serv'', PStr (service.name service)),
                   (''rev'', PStr (if no_traffic then latest_created else latest_ready)),
                   (''url'', PStr (domain service)),
                   (''latest_percent_traffic'', PInt percent)]) (\<lambda>m.
         Inr (m @ tag_url_message))))"

subsection \<open>\<^verbatim>\<open>GetStartDeployMessage\<close>\<close>

text \<open>\<^verbatim>\<open>conn_context.location_label\<close> is appended to the template before \<^verbatim>\<open>format\<close> runs, so
  it is read as template text. The label is input, so the call is modelled by
  \<open>py_format_modelled\<close>: the result is \<open>None\<close> for a label whose replacement fields leave the
  modelled fragment (such as \<^verbatim>\<open>{ns!r}\<close>, \<^verbatim>\<open>{ns:>12}\<close> or \<^verbatim>\<open>{ns[0]}\<close>), and \<open>Some\<close> of the
  returned message or the raised exception for every other label.\<close>

definition GetStartDeployMessage ::
  "conn_context \<Rightarrow> resource_ref \<Rightarrow> string \<Rightarrow> string \<Rightarrow> (error + string) option" where
  "GetStartDeployMessage conn_context resource_ref operation resource_kind_lower =
     (let msg = ''{operation} {operator} {resource_kind} '' @
                ''[{{bold}}{resource}{{reset}}] in {ns_label} [{{bold}}{ns}{{reset}}]'';
          msg = msg @ location_label conn_context;
          ns = (if resource_kind_lower = ''worker pool'' then projectsId resource_ref
                else Name (Parent resource_ref))
      in py_format_modelled msg []
           [(''operation'', PStr operation),
            (''operator'', PStr (operator conn_context)),
            (''resource_kind'', PStr resource_kind_lower),
            (''ns_label'', PStr (ns_label conn_context)),
            (''resource'', PStr (Name resource_ref)),
            (''ns'', PStr ns)])"

subsection \<open>\<^verbatim>\<open>GetNotFoundMessage\<close>\<close>

definition GetNotFoundMessage :: "conn_context \<Rightarrow> resource_ref \<Rightarrow> string \<Rightarrow> error + string" where
  "GetNotFoundMessage conn_context resource_ref resource_kind =
     (let msg = ''{resource_kind} [{resource}] could not be found'' @
                '' in {ns_label} [{ns}] region [{region}].''
      in py_format msg []
           [(''resource_kind'', PStr resource_kind),
            (''resource'', PStr (Name resource_ref)),
            (''ns_label'', PStr (ns_label conn_context)),
            (''ns'', PStr (Name (Parent resource_ref))),
            (''region'', PStr (conn_context.region conn_context))])"

subsection \<open>\<^verbatim>\<open>GetRunJobMessage\<close> and \<^verbatim>\<open>GetExecutionCreatedMessage\<close>\<close>

text \<open>The keyword argument \<^verbatim>\<open>release_track\<close> of both functions.\<close>

definition release_track_arg :: "release_track \<Rightarrow> error + string" where
  "release_track_arg release_track =
     (if prefix release_track \<noteq> None
      then py_format '' {}'' [of_opt (prefix release_track)] []
      else Inr [])"

definition GetRunJobMessage :: "release_track \<Rightarrow> string \<Rightarrow> bool \<Rightarrow> error + string" where
  "GetRunJobMessage release_track job_name repeat =
     ebind (release_track_arg release_track) (\<lambda>rt.
     py_format (''\<newline>To execute this job{repeat}, use:\<newline>'' @
                ''gcloud{release_track} run jobs execute {job_name}'') []
       [(''repeat'', PStr (if repeat then '' again'' else [])),
        (''release_track'', PStr rt),
        (''job_name'', PStr job_name)])"

definition GetExecutionUiLink :: "execution \<Rightarrow> error + string" where
  "GetExecutionUiLink execution =
     py_format (''https://console.cloud.google.com/run/jobs/executions/'' @
                ''details/{region}/{execution_name}/tasks?project={project}'') []
       [(''region'', PStr (execution.region execution)),
        (''execution_name'', PStr (execution.name execution)),
        (''project'', PStr (namespace execution))]"

definition GetExecutionCreatedMessage :: "release_track \<Rightarrow> execution \<Rightarrow> error + string" where
  "GetExecutionCreatedMessage release_track execution =
     ebind (release_track_arg release_track) (\<lambda>rt.
     ebind (py_format (''\<newline>View details about this execution by running:\<newline>'' @
                       ''gcloud{release_track} run jobs executions describe {execution_name}'') []
              [(''release_track'', PStr rt),
               (''execution_name'', PStr (execution.name execution))]) (\<lambda>msg.
     if (case execution.status execution of None \<Rightarrow> False
         | Some st \<Rightarrow> py_truthy (of_opt (logUri st)))
     then ebind (GetExecutionUiLink execution) (\<lambda>link.
          Inr (msg @ ''\<newline>\<newline>Or visit '' @ link))
     else Inr msg))"

subsection \<open>\<^verbatim>\<open>GetBuildEquivalentForSourceRunMessage\<close>\<close>

text \<open>\<^verbatim>\<open>pack\<close> is the list of pack arguments, or \<^verbatim>\<open>None\<close>; it is only tested for truth.\<close>

definition pack_truthy :: "'a list option \<Rightarrow> bool" where
  "pack_truthy pack = (case pack of None \<Rightarrow> False | Some xs \<Rightarrow> xs \<noteq> [])"

definition GetBuildEquivalentForSourceRunMessage ::
  "string \<Rightarrow> 'a list option \<Rightarrow> string \<Rightarrow> string \<Rightarrow> error + string" where
  "GetBuildEquivalentForSourceRunMessage target pack source subgroup =
     (let build_flag = (if pack_truthy pack then ''--pack image=[IMAGE]'' else ''--tag [IMAGE]'');
          msg = ''This command is equivalent to running '' @
                ''`gcloud builds submit {build_flag} {source}` and '' @
                ''`gcloud run {subgroup}deploy {name} --image [IMAGE]`\<newline>''
      in py_format msg []
           [(''name'', PStr target), (''build_flag'', PStr build_flag),
            (''source'', PStr source), (''subgroup'', PStr subgroup)])"

section \<open>Evaluation lemmas\<close>

lemma ebind_Inr [simp]: "ebind (Inr x) f = f x"
  by (simp add: ebind_def)

lemma ebind_Inl [simp]: "ebind (Inl e) f = Inl e"
  by (simp add: ebind_def)

lemma ebind_assoc [simp]: "ebind (ebind m f) g = ebind m (\<lambda>x. ebind (f x) g)"
  by (cases m) simp_all

text \<open>A character that is not a brace is copied, whatever follows it.\<close>

lemma py_fmt_literal:
  "c \<noteq> CHR ''{'' \<Longrightarrow> c \<noteq> CHR ''}'' \<Longrightarrow>
   py_fmt args kw n None (c # cs) = ebind (py_fmt args kw n None cs) (\<lambda>out. Inr (c # out))"
  by (cases cs) simp_all

lemma str_int_0: "str_int 0 = ''0''"
  by (simp add: str_int_def str_nat.simps)

text \<open>The formatter on the exceptional paths of \<^verbatim>\<open>str.format\<close>.\<close>

lemma py_format_examples:
  "py_format ''a}}b{{ {x} {}'' [PInt 0] [(''x'', PNone)] = Inr ''a}b{ None 0''"
  "py_format ''{} {}'' [PNone] [] = Inl (IndexError 1)"
  "py_format ''{x}'' [] [] = Inl (KeyError ''x'')"
  "py_format ''{x} }'' [] [(''x'', PNone)] = Inl ValueError"
  "py_format ''{x'' [] [(''x'', PNone)] = Inl ValueError"
  "py_format ''x{'' [] [] = Inl ValueError"
  by (simp_all add: py_format_def field_value_def str_int_0)

section \<open>Closed forms of the messages\<close>

lemma region_url_eq:
  "region_url service r =
   Inr (case conditions service (''MultiRegionReady/'' @ r) of
          None \<Rightarrow> PStr [] | Some c \<Rightarrow> dict_get c ''message'')"
  by (cases "conditions service (''MultiRegionReady/'' @ r)")
     (simp_all add: region_url_def getitem_def)

lemma region_line_eq:
  "py_format ''\<newline>{{bold}}{url}{{reset}} ({{bold}}{r}{{reset}})'' []
     [(''r'', PStr r), (''url'', url)] =
   Inr (''\<newline>{bold}'' @ py_str url @ ''{reset} ({bold}'' @ r @ ''{reset})'')"
  by (simp add: py_format_def field_value_def)

text \<open>The loop appends one line per region to its accumulator, in the order of the list,
  and never raises.\<close>

lemma multi_region_loop_eq:
  "multi_region_loop service regions msg =
   Inr (msg @ concat (map (\<lambda>r. ''\<newline>{bold}'' @
          (case conditions service (''MultiRegionReady/'' @ r) of
             None \<Rightarrow> [] | Some c \<Rightarrow> py_str (dict_get c ''message'')) @
          ''{reset} ({bold}'' @ r @ ''{reset})'') regions))"
proof (induction regions arbitrary: msg)
  case Nil
  show ?case by simp
next
  case (Cons r regions)
  show ?case
    by (simp add: region_url_eq region_line_eq Cons.IH split: option.split)
qed

lemma multi_region_header_eq:
  "py_format (''Multi-Region Service [{{bold}}{s}{{reset}}] '' @
              ''has been deployed to regions {{bold}}{r}{{reset}}.'' @
              ''\<newline>Regional URLs:'') [] [(''s'', PStr n), (''r'', PList rs)] =
   Inr (''Multi-Region Service [{bold}'' @ n @ ''{reset}] has been deployed to regions {bold}'' @
        py_repr (PList rs) @ ''{reset}.\<newline>Regional URLs:'')"
  by (simp add: py_format_def field_value_def del: py_repr.simps)

lemma multi_region_eq:
  "GetSuccessMessageForMultiRegionSynchronousDeploy service regions =
   Inr (''Multi-Region Service [{bold}'' @ service.name service @
        ''{reset}] has been deployed to regions {bold}'' @
        py_repr (PList (map PStr regions)) @ ''{reset}.\<newline>Regional URLs:'' @
        concat (map (\<lambda>r. ''\<newline>{bold}'' @
          (case conditions service (''MultiRegionReady/'' @ r) of
             None \<Rightarrow> [] | Some c \<Rightarrow> py_str (dict_get c ''message'')) @
          ''{reset} ({bold}'' @ r @ ''{reset})'') regions))"
  unfolding GetSuccessMessageForMultiRegionSynchronousDeploy_def multi_region_header_eq
  by (simp add: multi_region_loop_eq del: py_repr.simps)

lemma sync_eq:
  "GetSuccessMessageForSynchronousDeploy service no_traffic =
   Inr (''Service [{bold}'' @ service.name service @ ''{reset}] revision [{bold}'' @
        (if no_traffic then latestCreatedRevisionName (service.status service)
         else latestReadyRevisionName (service.status service)) @
        ''{reset}] has been deployed and is serving {bold}'' @
        str_int (if no_traffic then 0 else latest_percent_traffic service) @
        ''{reset} percent of traffic.'' @
        (if (if no_traffic then 0 else latest_percent_traffic service) \<noteq> 0
         then ''\<newline>Service URL: {bold}'' @ domain service @ ''{reset}'' else []) @
        (case latest_url service of None \<Rightarrow> []
         | Some u \<Rightarrow> if u \<noteq> [] then ''\<newline>The revision can be reached directly at '' @ u
                    else []))"
  by (simp add: GetSuccessMessageForSynchronousDeploy_def py_format_def field_value_def Let_def
        split: option.split)

lemma release_track_arg_eq:
  "release_track_arg rt = Inr (case prefix rt of None \<Rightarrow> [] | Some p \<Rightarrow> '' '' @ p)"
  by (simp add: release_track_arg_def py_format_def field_value_def split: option.split)

lemma GetRunJobMessage_eq:
  "GetRunJobMessage rt job_name repeat =
   Inr (''\<newline>To execute this job'' @ (if repeat then '' again'' else []) @
        '', use:\<newline>gcloud'' @
        (case prefix rt of None \<Rightarrow> [] | Some p \<Rightarrow> '' '' @ p) @
        '' run jobs execute '' @ job_name)"
  by (simp add: GetRunJobMessage_def release_track_arg_eq py_format_def field_value_def)

lemma GetExecutionUiLink_eq:
  "GetExecutionUiLink e =
   Inr (''https://console.cloud.google.com/run/jobs/executions/details/'' @
        execution.region e @ ''/'' @ execution.name e @ ''/tasks?project='' @ namespace e)"
  by (simp add: GetExecutionUiLink_def py_format_def field_value_def)

lemma GetExecutionCreatedMessage_eq:
  "GetExecutionCreatedMessage rt e =
   Inr (''\<newline>View details about this execution by running:\<newline>gcloud'' @
        (case prefix rt of None \<Rightarrow> [] | Some p \<Rightarrow> '' '' @ p) @
        '' run jobs executions describe '' @ execution.name e @
        (if (case execution.status e of None \<Rightarrow> False
             | Some st \<Rightarrow> py_truthy (of_opt (logUri st)))
         then ''\<newline>\<newline>Or visit '' @
              ''https://console.cloud.google.com/run/jobs/executions/details/'' @
              execution.region e @ ''/'' @ execution.name e @ ''/tasks?project='' @ namespace e
         else []))"
  by (simp add: GetExecutionCreatedMessage_def release_track_arg_eq GetExecutionUiLink_eq
        py_format_def field_value_def)

text \<open>The template of \<^verbatim>\<open>GetStartDeployMessage\<close> with the label appended: the fixed part is
  formatted first and the label after it, with the same keyword arguments.\<close>

lemma start_deploy_format_eq:
  "py_format
     ((''{operation} {operator} {resource_kind} '' @
       ''[{{bold}}{resource}{{reset}}] in {ns_label} [{{bold}}{ns}{{reset}}]'') @ label) []
     [(''operation'', PStr operation), (''operator'', PStr oper),
      (''resource_kind'', PStr kind), (''ns_label'', PStr nsl),
      (''resource'', PStr res), (''ns'', PStr ns)] =
   ebind (py_format label []
            [(''operation'', PStr operation), (''operator'', PStr oper),
             (''resource_kind'', PStr kind), (''ns_label'', PStr nsl),
             (''resource'', PStr res), (''ns'', PStr ns)])
     (\<lambda>loc. Inr (operation @ '' '' @ oper @ '' '' @ kind @ '' [{bold}'' @ res @
                 ''{reset}] in '' @ nsl @ '' [{bold}'' @ ns @ ''{reset}]'' @ loc))"
  by (simp add: py_format_def field_value_def py_fmt_literal)

lemma py_format_modelled_ebind:
  assumes "py_format t a k = ebind r (\<lambda>loc. Inr (f loc))"
  shows "py_format_modelled t a k =
    (case r of Inl e \<Rightarrow> (if e = NotModelled then None else Some (Inl e))
     | Inr loc \<Rightarrow> Some (Inr (f loc)))"
  by (cases r) (simp_all add: py_format_modelled_def assms)

text \<open>The message for every label: undefined in the model when formatting the label leaves
  the modelled fragment, the exception of the label when it raises one, and the fixed part
  followed by the formatted label otherwise.\<close>

lemma GetStartDeployMessage_eq:
  "GetStartDeployMessage conn_context resource_ref operation resource_kind_lower =
   (case py_format (location_label conn_context) []
           [(''operation'', PStr operation),
            (''operator'', PStr (operator conn_context)),
            (''resource_kind'', PStr resource_kind_lower),
            (''ns_label'', PStr (ns_label conn_context)),
            (''resource'', PStr (Name resource_ref)),
            (''ns'', PStr (if resource_kind_lower = ''worker pool''
                           then projectsId resource_ref
                           else Name (Parent resource_ref)))] of
      Inl e \<Rightarrow> (if e = NotModelled then None else Some (Inl e))
    | Inr loc \<Rightarrow>
        Some (Inr (operation @ '' '' @ operator conn_context @ '' '' @
                   resource_kind_lower @ '' [{bold}'' @ Name resource_ref @
                   ''{reset}] in '' @ ns_label conn_context @ '' [{bold}'' @
                   (if resource_kind_lower = ''worker pool'' then projectsId resource_ref
                    else Name (Parent resource_ref)) @ ''{reset}]'' @ loc)))"
  unfolding GetStartDeployMessage_def Let_def
  by (rule py_format_modelled_ebind) (rule start_deploy_format_eq)

lemma GetStartDeployMessage_None_iff:
  "GetStartDeployMessage conn_context resource_ref operation resource_kind_lower = None \<longleftrightarrow>
   py_format (location_label conn_context) []
     [(''operation'', PStr operation),
      (''operator'', PStr (operator conn_context)),
      (''resource_kind'', PStr resource_kind_lower),
      (''ns_label'', PStr (ns_label conn_context)),
      (''resource'', PStr (Name resource_ref)),
      (''ns'', PStr (if resource_kind_lower = ''worker pool'' then projectsId resource_ref
                     else Name (Parent resource_ref)))] = Inl NotModelled"
  unfolding GetStartDeployMessage_eq
  by (cases "py_format (location_label conn_context) []
     [(''operation'', PStr operation),
      (''operator'', PStr (operator conn_context)),
      (''resource_kind'', PStr resource_kind_lower),
      (''ns_label'', PStr (ns_label conn_context)),
      (''resource'', PStr (Name resource_ref)),
      (''ns'', PStr (if resource_kind_lower = ''worker pool'' then projectsId resource_ref
                     else Name (Parent resource_ref)))]") simp_all

text \<open>\<^verbatim>\<open>GetStartDeployMessage\<close> on a location label written as template text, for a service
  and for a worker pool; then on a label with a lone brace, and on one outside the model.\<close>

lemma GetStartDeployMessage_examples:
  "GetStartDeployMessage
     \<lparr>location_label = '' region [{{bold}}us-central1{{reset}}]'', operator = ''Cloud Run'',
      ns_label = ''project'', region = ''us-central1''\<rparr>
     \<lparr>Name = ''web'', Parent = \<lparr>Name = ''my-project''\<rparr>, projectsId = ''unused''\<rparr>
     ''Deploying container to'' ''service'' =
   Some (Inr (''Deploying container to Cloud Run service [{bold}web{reset}] in project '' @
              ''[{bold}my-project{reset}] region [{bold}us-central1{reset}]''))"
  "GetStartDeployMessage
     \<lparr>location_label = '' region [{{bold}}us-central1{{reset}}]'', operator = ''Cloud Run'',
      ns_label = ''project'', region = ''us-central1''\<rparr>
     \<lparr>Name = ''pool'', Parent = \<lparr>Name = ''us-central1''\<rparr>, projectsId = ''my-project''\<rparr>
     ''Deploying container to'' ''worker pool'' =
   Some (Inr (''Deploying container to Cloud Run worker pool [{bold}pool{reset}] in project '' @
              ''[{bold}my-project{reset}] region [{bold}us-central1{reset}]''))"
  "GetStartDeployMessage
     \<lparr>location_label = '' region {us-central1'', operator = ''Cloud Run'',
      ns_label = ''project'', region = ''us-central1''\<rparr>
     \<lparr>Name = ''web'', Parent = \<lparr>Name = ''my-project''\<rparr>, projectsId = ''unused''\<rparr>
     ''Deploying container to'' ''service'' = Some (Inl ValueError)"
  "GetStartDeployMessage
     \<lparr>location_label = '' region [{ns!r}]'', operator = ''Cloud Run'',
      ns_label = ''project'', region = ''us-central1''\<rparr>
     \<lparr>Name = ''web'', Parent = \<lparr>Name = ''my-project''\<rparr>, projectsId = ''unused''\<rparr>
     ''Deploying container to'' ''service'' = None"
  by (simp_all add: GetStartDeployMessage_def py_format_modelled_def py_format_def
        field_value_def)

text \<open>\<^verbatim>\<open>repr\<close> of the two region names used as a concrete input below.\<close>

lemma repr_str_regions:
  "repr_str ''us-east1'' = [CHR 0x27] @ ''us-east1'' @ [CHR 0x27]"
  "repr_str ''us-west1'' = [CHR 0x27] @ ''us-west1'' @ [CHR 0x27]"
  by (simp_all add: repr_str_def repr_quote_def repr_char_def is_printable_def Let_def)

section \<open>The claims\<close>

text \<open>
  C1. For every service record, with \<^verbatim>\<open>no_traffic=True\<close> the message of
  \<^verbatim>\<open>GetSuccessMessageForSynchronousDeploy\<close> names the revision
  \<^verbatim>\<open>service.status.latestCreatedRevisionName\<close> (not the latest ready one) and a traffic
  percentage of 0, whatever \<^verbatim>\<open>service.latest_percent_traffic\<close> is; with \<^verbatim>\<open>no_traffic=False\<close> it
  names \<^verbatim>\<open>latestReadyRevisionName\<close> and the record's \<^verbatim>\<open>latest_percent_traffic\<close>. The
  message starts with the sentence that carries both; \<open>rest\<close> is the optional URL lines.
\<close>

theorem sync_deploy_revision_and_percent:
  "(\<exists>rest. GetSuccessMessageForSynchronousDeploy service True =
     Inr (''Service [{bold}'' @ service.name service @ ''{reset}] revision [{bold}'' @
          latestCreatedRevisionName (service.status service) @
          ''{reset}] has been deployed and is serving {bold}0{reset} percent of traffic.'' @
          rest)) \<and>
   (\<exists>rest. GetSuccessMessageForSynchronousDeploy service False =
     Inr (''Service [{bold}'' @ service.name service @ ''{reset}] revision [{bold}'' @
          latestReadyRevisionName (service.status service) @
          ''{reset}] has been deployed and is serving {bold}'' @
          str_int (latest_percent_traffic service) @ ''{reset} percent of traffic.'' @ rest))"
  by (simp add: sync_eq str_int_0)

text \<open>
  C2. For every service record and every list of regions, the message of
  \<^verbatim>\<open>GetSuccessMessageForMultiRegionSynchronousDeploy\<close> is the header (service name, the
  list of regions as \<^verbatim>\<open>str\<close> prints it, \<^verbatim>\<open>Regional URLs:\<close>) followed by exactly one appended
  line per input region (the text one turn of the loop appends, starting with a newline),
  in the order of the input list. The line of region \<open>r\<close> shows the
  \<^verbatim>\<open>message\<close> entry of \<^verbatim>\<open>service.conditions['MultiRegionReady/' + r]\<close> when that key is in
  the condition mapping, and the empty string otherwise.
\<close>

theorem multi_region_one_line_per_region:
  "GetSuccessMessageForMultiRegionSynchronousDeploy service regions =
   Inr (''Multi-Region Service [{bold}'' @ service.name service @
        ''{reset}] has been deployed to regions {bold}'' @
        py_repr (PList (map PStr regions)) @ ''{reset}.\<newline>Regional URLs:'' @
        concat (map (\<lambda>r. ''\<newline>{bold}'' @
          (case conditions service (''MultiRegionReady/'' @ r) of
             None \<Rightarrow> [] | Some c \<Rightarrow> py_str (dict_get c ''message'')) @
          ''{reset} ({bold}'' @ r @ ''{reset})'') regions))"
  by (rule multi_region_eq)

text \<open>
  C3. In \<^verbatim>\<open>GetSuccessMessageForSynchronousDeploy\<close> the \<^verbatim>\<open>Service URL\<close> line, showing
  \<^verbatim>\<open>service.domain\<close>, is appended if and only if the effective traffic percentage (0 when
  \<^verbatim>\<open>no_traffic=True\<close>, else \<^verbatim>\<open>service.latest_percent_traffic\<close>) is not zero, and the line
  \<^verbatim>\<open>The revision can be reached directly at\<close>, showing \<^verbatim>\<open>service.latest_url\<close>, is appended if
  and only if \<^verbatim>\<open>service.latest_url\<close> is a non-empty string.
\<close>

theorem sync_deploy_url_lines:
  "GetSuccessMessageForSynchronousDeploy service no_traffic =
   Inr (''Service [{bold}'' @ service.name service @ ''{reset}] revision [{bold}'' @
        (if no_traffic then latestCreatedRevisionName (service.status service)
         else latestReadyRevisionName (service.status service)) @
        ''{reset}] has been deployed and is serving {bold}'' @
        str_int (if no_traffic then 0 else latest_percent_traffic service) @
        ''{reset} percent of traffic.'' @
        (if (if no_traffic then 0 else latest_percent_traffic service) \<noteq> 0
         then ''\<newline>Service URL: {bold}'' @ domain service @ ''{reset}'' else []) @
        (case latest_url service of None \<Rightarrow> []
         | Some u \<Rightarrow> if u \<noteq> [] then ''\<newline>The revision can be reached directly at '' @ u
                    else []))"
  by (rule sync_eq)

text \<open>
  C4. For every release track and job name, the message of \<^verbatim>\<open>GetRunJobMessage\<close> has a single
  space between \<^verbatim>\<open>gcloud\<close> and the release-track prefix only when a prefix is present (when
  \<^verbatim>\<open>release_track.prefix\<close> is \<^verbatim>\<open>None\<close>, \<^verbatim>\<open>gcloud\<close> is followed at once by \<^verbatim>\<open> run\<close>), and
  \<^verbatim>\<open> again\<close> follows \<^verbatim>\<open>To execute this job\<close> if and only if \<^verbatim>\<open>repeat=True\<close>.
\<close>

theorem run_job_message_shape:
  "GetRunJobMessage release_track job_name repeat =
   Inr (''\<newline>To execute this job'' @ (if repeat then '' again'' else []) @
        '', use:\<newline>gcloud'' @
        (case prefix release_track of None \<Rightarrow> [] | Some p \<Rightarrow> '' '' @ p) @
        '' run jobs execute '' @ job_name)"
  by (rule GetRunJobMessage_eq)

text \<open>
  C5. \<^verbatim>\<open>GetStartDeployMessage\<close> takes the parent identifier it shows from
  \<^verbatim>\<open>resource_ref.projectsId\<close> when \<^verbatim>\<open>resource_kind_lower\<close> equals \<^verbatim>\<open>worker pool\<close>, and from
  \<^verbatim>\<open>resource_ref.Parent().Name()\<close> for every other kind. Apart from this identifier both
  cases give the same message: operation, operator, kind, resource name, namespace label,
  the identifier, and then the location label, which is formatted as part of the template
  (an exception raised on the label is the result). This is stated for every location
  label whose formatting stays inside the modelled fragment of \<^verbatim>\<open>str.format\<close>.
\<close>

theorem start_deploy_parent_identifier:
  assumes "py_format (location_label conn_context) []
             [(''operation'', PStr operation),
              (''operator'', PStr (operator conn_context)),
              (''resource_kind'', PStr resource_kind_lower),
              (''ns_label'', PStr (ns_label conn_context)),
              (''resource'', PStr (Name resource_ref)),
              (''ns'', PStr (if resource_kind_lower = ''worker pool''
                             then projectsId resource_ref
                             else Name (Parent resource_ref)))] \<noteq> Inl NotModelled"
  shows "GetStartDeployMessage conn_context resource_ref operation resource_kind_lower =
   (let ns = (if resource_kind_lower = ''worker pool'' then projectsId resource_ref
              else Name (Parent resource_ref))
    in Some (case py_format (location_label conn_context) []
                    [(''operation'', PStr operation),
                     (''operator'', PStr (operator conn_context)),
                     (''resource_kind'', PStr resource_kind_lower),
                     (''ns_label'', PStr (ns_label conn_context)),
                     (''resource'', PStr (Name resource_ref)),
                     (''ns'', PStr ns)] of
               Inl e \<Rightarrow> Inl e
             | Inr loc \<Rightarrow>
                 Inr (operation @ '' '' @ operator conn_context @ '' '' @
                      resource_kind_lower @ '' [{bold}'' @ Name resource_ref @
                      ''{reset}] in '' @ ns_label conn_context @
                      '' [{bold}'' @ ns @ ''{reset}]'' @ loc)))"
  using assms unfolding GetStartDeployMessage_eq Let_def
  by (cases "py_format (location_label conn_context) []
             [(''operation'', PStr operation),
              (''operator'', PStr (operator conn_context)),
              (''resource_kind'', PStr resource_kind_lower),
              (''ns_label'', PStr (ns_label conn_context)),
              (''resource'', PStr (Name resource_ref)),
              (''ns'', PStr (if resource_kind_lower = ''worker pool''
                             then projectsId resource_ref
                             else Name (Parent resource_ref)))]") simp_all

theorem start_deploy_parent_identifier_witness:
  "py_format
     (location_label
        \<lparr>location_label = '' region [{{bold}}us-central1{{reset}}]'', operator = ''Cloud Run'',
         ns_label = ''project'', region = ''us-central1''\<rparr>) []
     [(''operation'', PStr ''Deploying container to''),
      (''operator'', PStr ''Cloud Run''),
      (''resource_kind'', PStr ''worker pool''),
      (''ns_label'', PStr ''project''),
      (''resource'', PStr ''pool''),
      (''ns'', PStr ''my-project'')] \<noteq> Inl NotModelled \<and>
   GetStartDeployMessage
     \<lparr>location_label = '' region [{{bold}}us-central1{{reset}}]'', operator = ''Cloud Run'',
      ns_label = ''project'', region = ''us-central1''\<rparr>
     \<lparr>Name = ''pool'', Parent = \<lparr>Name = ''us-central1''\<rparr>, projectsId = ''my-project''\<rparr>
     ''Deploying container to'' ''worker pool'' =
   Some (Inr (''Deploying container to Cloud Run worker pool [{bold}pool{reset}] in project '' @
              ''[{bold}my-project{reset}] region [{bold}us-central1{reset}]''))"
  using start_deploy_parent_identifier
    [of "\<lparr>location_label = '' region [{{bold}}us-central1{{reset}}]'', operator = ''Cloud Run'',
          ns_label = ''project'', region = ''us-central1''\<rparr>"
        "''Deploying container to''" "''worker pool''"
        "\<lparr>Name = ''pool'', Parent = \<lparr>Name = ''us-central1''\<rparr>, projectsId = ''my-project''\<rparr>"]
  by (simp add: py_format_def field_value_def)

text \<open>
  C6. For every region \<open>r\<close> whose key \<^verbatim>\<open>'MultiRegionReady/' + r\<close> is absent from
  \<^verbatim>\<open>service.conditions\<close>, \<^verbatim>\<open>GetSuccessMessageForMultiRegionSynchronousDeploy\<close> raises
  nothing and puts the empty string as the URL in the line of \<open>r\<close>, wherever \<open>r\<close> stands in
  the list of regions.
\<close>

theorem multi_region_missing_condition:
  assumes "conditions service (''MultiRegionReady/'' @ r) = None"
  shows "GetSuccessMessageForMultiRegionSynchronousDeploy service (before @ r # after) =
   Inr (''Multi-Region Service [{bold}'' @ service.name service @
        ''{reset}] has been deployed to regions {bold}'' @
        py_repr (PList (map PStr (before @ r # after))) @ ''{reset}.\<newline>Regional URLs:'' @
        concat (map (\<lambda>x. ''\<newline>{bold}'' @
          (case conditions service (''MultiRegionReady/'' @ x) of
             None \<Rightarrow> [] | Some c \<Rightarrow> py_str (dict_get c ''message'')) @
          ''{reset} ({bold}'' @ x @ ''{reset})'') before) @
        ''\<newline>{bold}{reset} ({bold}'' @ r @ ''{reset})'' @
        concat (map (\<lambda>x. ''\<newline>{bold}'' @
          (case conditions service (''MultiRegionReady/'' @ x) of
             None \<Rightarrow> [] | Some c \<Rightarrow> py_str (dict_get c ''message'')) @
          ''{reset} ({bold}'' @ x @ ''{reset})'') after))"
  unfolding multi_region_eq using assms by (simp del: py_repr.simps)

theorem multi_region_missing_condition_witness:
  "conditions
     \<lparr>service.name = ''web'',
      service.status = \<lparr>latestReadyRevisionName = ''web-1'',
                        latestCreatedRevisionName = ''web-2''\<rparr>,
      latest_percent_traffic = 100, latest_url = None, domain = ''https://web.example'',
      conditions = [''MultiRegionReady/us-east1'' \<mapsto>
                      [''message'' \<mapsto> PStr ''https://east.example'']]\<rparr>
     (''MultiRegionReady/'' @ ''us-west1'') = None \<and>
   GetSuccessMessageForMultiRegionSynchronousDeploy
     \<lparr>service.name = ''web'',
      service.status = \<lparr>latestReadyRevisionName = ''web-1'',
                        latestCreatedRevisionName = ''web-2''\<rparr>,
      latest_percent_traffic = 100, latest_url = None, domain = ''https://web.example'',
      conditions = [''MultiRegionReady/us-east1'' \<mapsto>
                      [''message'' \<mapsto> PStr ''https://east.example'']]\<rparr>
     ([''us-east1''] @ ''us-west1'' # []) =
   Inr (''Multi-Region Service [{bold}web{reset}] has been deployed to regions {bold}['' @
        [CHR 0x27] @ ''us-east1'' @ [CHR 0x27] @ '', '' @
        [CHR 0x27] @ ''us-west1'' @ [CHR 0x27] @
        '']{reset}.\<newline>Regional URLs:'' @
        ''\<newline>{bold}https://east.example{reset} ({bold}us-east1{reset})'' @
        ''\<newline>{bold}{reset} ({bold}us-west1{reset})'')"
  using multi_region_missing_condition
    [of "\<lparr>service.name = ''web'',
          service.status = \<lparr>latestReadyRevisionName = ''web-1'',
                            latestCreatedRevisionName = ''web-2''\<rparr>,
          latest_percent_traffic = 100, latest_url = None, domain = ''https://web.example'',
          conditions = [''MultiRegionReady/us-east1'' \<mapsto>
                          [''message'' \<mapsto> PStr ''https://east.example'']]\<rparr>"
        "''us-west1''" "[''us-east1'']" "[]"]
  by (simp add: repr_str_regions dict_get_def)

text \<open>
  C7. For every connection context, resource reference and resource kind, empty strings
  included, the message of \<^verbatim>\<open>GetNotFoundMessage\<close> holds the resource kind, the resource
  name, the namespace label, the namespace value and the region exactly once each, in the
  fixed template \<^verbatim>\<open><kind> [<name>] could not be found in <ns_label> [<ns>] region [<region>].\<close>
\<close>

theorem not_found_message_template:
  "GetNotFoundMessage conn_context resource_ref resource_kind =
   Inr (resource_kind @ '' ['' @ Name resource_ref @ ''] could not be found in '' @
        ns_label conn_context @ '' ['' @ Name (Parent resource_ref) @ ''] region ['' @
        conn_context.region conn_context @ ''].'')"
  by (simp add: GetNotFoundMessage_def py_format_def field_value_def)

text \<open>
  C8. For every name, source and subgroup, \<^verbatim>\<open>GetBuildEquivalentForSourceRunMessage\<close> gives
  the build flag \<^verbatim>\<open>--pack image=[IMAGE]\<close> when the pack argument is truthy and
  \<^verbatim>\<open>--tag [IMAGE]\<close> otherwise, and puts the subgroup token as it is (a trailing space
  included) right before \<^verbatim>\<open>deploy\<close> in the second quoted command.
\<close>

theorem build_equivalent_message_shape:
  "GetBuildEquivalentForSourceRunMessage target pack source subgroup =
   Inr (''This command is equivalent to running `gcloud builds submit '' @
        (if pack_truthy pack then ''--pack image=[IMAGE]'' else ''--tag [IMAGE]'') @
        '' '' @ source @ ''` and `gcloud run '' @ subgroup @ ''deploy '' @ target @
        '' --image [IMAGE]`\<newline>'')"
  by (simp add: GetBuildEquivalentForSourceRunMessage_def py_format_def field_value_def)

text \<open>
  C10. In \<^verbatim>\<open>GetRunJobMessage\<close> and in \<^verbatim>\<open>GetExecutionCreatedMessage\<close> the space and the
  prefix are put after \<^verbatim>\<open>gcloud\<close> if and only if \<^verbatim>\<open>release_track.prefix\<close> is not \<^verbatim>\<open>None\<close>. When
  the prefix is the empty string the space is still put, so \<^verbatim>\<open>gcloud\<close> is followed by two
  spaces before \<^verbatim>\<open>run\<close>. (\<open>link\<close> is the optional console link of the second message.)
\<close>

theorem release_track_prefix_space:
  "GetRunJobMessage \<lparr>prefix = None\<rparr> job_name repeat =
     Inr (''\<newline>To execute this job'' @ (if repeat then '' again'' else []) @
          '', use:\<newline>gcloud run jobs execute '' @ job_name) \<and>
   GetRunJobMessage \<lparr>prefix = Some p\<rparr> job_name repeat =
     Inr (''\<newline>To execute this job'' @ (if repeat then '' again'' else []) @
          '', use:\<newline>gcloud '' @ p @ '' run jobs execute '' @ job_name) \<and>
   GetRunJobMessage \<lparr>prefix = Some []\<rparr> job_name repeat =
     Inr (''\<newline>To execute this job'' @ (if repeat then '' again'' else []) @
          '', use:\<newline>gcloud  run jobs execute '' @ job_name) \<and>
   (\<exists>link. GetExecutionCreatedMessage \<lparr>prefix = None\<rparr> execution =
     Inr (''\<newline>View details about this execution by running:\<newline>'' @
          ''gcloud run jobs executions describe '' @ execution.name execution @ link)) \<and>
   (\<exists>link. GetExecutionCreatedMessage \<lparr>prefix = Some p\<rparr> execution =
     Inr (''\<newline>View details about this execution by running:\<newline>'' @
          ''gcloud '' @ p @ '' run jobs executions describe '' @ execution.name execution @
          link)) \<and>
   (\<exists>link. GetExecutionCreatedMessage \<lparr>prefix = Some []\<rparr> execution =
     Inr (''\<newline>View details about this execution by running:\<newline>'' @
          ''gcloud  run jobs executions describe '' @ execution.name execution @ link))"
  by (simp add: GetRunJobMessage_eq GetExecutionCreatedMessage_eq)

end
